theory Spec2Isabelle
  imports Complex_Main
begin

section \<open>Python floats\<close>

text \<open>
  The evaluator of \<^verbatim>\<open>anesthesia_machine_UI.py\<close> receives Python floats (the caller
  builds them with \<^verbatim>\<open>float(text)\<close>, which also accepts \<^verbatim>\<open>nan\<close> and \<^verbatim>\<open>inf\<close>).
  A float is modelled as not-a-number, an infinity, or a finite value. Finite arithmetic
  is exact arithmetic on the reals: the rounding of binary64 is not modelled, the
  special values and the comparisons with them are.
\<close>

datatype pyfloat = NaN | NInf | Fin real | PInf

datatype py_error = ZeroDivisionError

text \<open>Comparisons: every comparison with \<open>NaN\<close> is false.\<close>

fun py_lt :: "pyfloat \<Rightarrow> pyfloat \<Rightarrow> bool" where
  "py_lt (Fin a) (Fin b) = (a < b)"
| "py_lt NInf (Fin b) = True"
| "py_lt NInf PInf = True"
| "py_lt (Fin a) PInf = True"
| "py_lt _ _ = False"

fun py_le :: "pyfloat \<Rightarrow> pyfloat \<Rightarrow> bool" where
  "py_le (Fin a) (Fin b) = (a \<le> b)"
| "py_le NaN _ = False"
| "py_le _ NaN = False"
| "py_le NInf _ = True"
| "py_le _ PInf = True"
| "py_le _ _ = False"

definition py_gt :: "pyfloat \<Rightarrow> pyfloat \<Rightarrow> bool" where
  "py_gt a b = py_lt b a"

fun py_eq :: "pyfloat \<Rightarrow> pyfloat \<Rightarrow> bool" where
  "py_eq (Fin a) (Fin b) = (a = b)"
| "py_eq NInf NInf = True"
| "py_eq PInf PInf = True"
| "py_eq _ _ = False"

text \<open>Multiplication \<^verbatim>\<open>a * b\<close>: zero times an infinity is not a number.\<close>

fun py_mul :: "pyfloat \<Rightarrow> pyfloat \<Rightarrow> pyfloat" where
  "py_mul (Fin a) (Fin b) = Fin (a * b)"
| "py_mul NaN _ = NaN"
| "py_mul _ NaN = NaN"
| "py_mul (Fin a) PInf = (if a = 0 then NaN else if 0 < a then PInf else NInf)"
| "py_mul (Fin a) NInf = (if a = 0 then NaN else if 0 < a then NInf else PInf)"
| "py_mul PInf (Fin b) = (if b = 0 then NaN else if 0 < b then PInf else NInf)"
| "py_mul NInf (Fin b) = (if b = 0 then NaN else if 0 < b then NInf else PInf)"
| "py_mul PInf PInf = PInf"
| "py_mul NInf NInf = PInf"
| "py_mul PInf NInf = NInf"
| "py_mul NInf PInf = NInf"

text \<open>
  True division \<^verbatim>\<open>a / b\<close>: Python raises \<^verbatim>\<open>ZeroDivisionError\<close> when the divisor is
  zero, whatever the dividend; \<open>quotient\<close> is the result for every other divisor.
\<close>

fun quotient :: "pyfloat \<Rightarrow> pyfloat \<Rightarrow> pyfloat" where
  "quotient (Fin a) (Fin b) = Fin (a / b)"
| "quotient NaN _ = NaN"
| "quotient _ NaN = NaN"
| "quotient (Fin a) _ = Fin 0"
| "quotient PInf (Fin b) = (if 0 < b then PInf else NInf)"
| "quotient NInf (Fin b) = (if 0 < b then NInf else PInf)"
| "quotient _ _ = NaN"

definition py_truediv :: "pyfloat \<Rightarrow> pyfloat \<Rightarrow> py_error + pyfloat" where
  "py_truediv a b = (if py_eq b (Fin 0) then Inl ZeroDivisionError else Inr (quotient a b))"

text \<open>
  \<^verbatim>\<open>round(x, 2)\<close>: the nearest multiple of 0.01, a tie going to the even one; the
  special values are returned unchanged.
\<close>

definition round_half_even :: "real \<Rightarrow> int" where
  "round_half_even x =
     (let f = \<lfloor>x\<rfloor>; d = x - of_int f
      in if d < 1 / 2 then f else if 1 / 2 < d then f + 1 else if even f then f else f + 1)"

fun py_round2 :: "pyfloat \<Rightarrow> pyfloat" where
  "py_round2 (Fin x) = Fin (of_int (round_half_even (x * 100)) / 100)"
| "py_round2 x = x"

text \<open>
  \<^verbatim>\<open>str\<close> of a float inside an f-string, for a finite float with an integer value
  below \<open>10 ^ 16\<close> (the digits of the integer, then \<^verbatim>\<open>.0\<close>), which is what the
  evaluator formats with it; the text of any other float is left empty.
\<close>

fun digits :: "nat \<Rightarrow> string" where
  "digits n = (if n < 10 then [''0123456789'' ! n]
               else digits (n div 10) @ [''0123456789'' ! (n mod 10)])"

fun py_str :: "pyfloat \<Rightarrow> string" where
  "py_str (Fin x) =
     (if x = of_int \<lfloor>x\<rfloor> \<and> \<bar>x\<bar> < 10 ^ 16
      then (if x < 0 then ''-'' else []) @ digits (nat \<bar>\<lfloor>x\<rfloor>\<bar>) @ ''.0''
      else [])"
| "py_str _ = []"

section \<open>Data model\<close>

text \<open>
  The ten keyword arguments of \<^verbatim>\<open>evaluate_anesthesia_realistic\<close>, under the names
  of the source.
\<close>

record params =
  patient_type :: string
  weight_kg :: pyfloat
  fio2 :: pyfloat
  fresh_gas_flow_lpm :: pyfloat
  agent :: string
  agent_percent :: pyfloat
  airway_pressure_cmh2o :: pyfloat
  tidal_volume_ml :: pyfloat
  resp_rate_bpm :: pyfloat
  hypoxic_guard_enabled :: bool

text \<open>
  One constructor for each message text of the source, in the order of the source. A
  message built by an f-string carries the values that the f-string formats (the
  rendering of a number as text is not modelled): the agent name and the result of
  \<^verbatim>\<open>dict.get(agent)\<close>, or the tidal volume per kg with the recommended range, or
  the minute ventilation.
\<close>

datatype message =
    Invalid_weight
  | Invalid_fio2
  | Invalid_fresh_gas_flow
  | Invalid_agent_concentration
  | Invalid_respiratory_rate
  | Invalid_tidal_volume
  | FiO2_below_21
  | Hypoxic_mixture_risk
  | Low_FiO2
  | Hypoxic_guard
  | Agent_set_but_FGF_zero
  | FGF_very_low_with_agent
  | Very_low_FGF
  | High_FGF
  | Agent_too_high string "pyfloat option"
  | Agent_high string "pyfloat option"
  | VT_too_low pyfloat
  | VT_below_recommended pyfloat pyfloat pyfloat
  | VT_too_high pyfloat
  | VT_above_recommended pyfloat pyfloat pyfloat
  | Apnea
  | Low_RR
  | High_RR
  | Low_minute_ventilation pyfloat
  | Borderline_MV pyfloat
  | High_airway_pressure
  | Elevated_airway_pressure
  | Possible_disconnection

datatype pyval = PyFloat pyfloat | PyStr string

text \<open>The returned dictionary, with its four keys as fields.\<close>

record evaluation_result =
  status :: string
  alarms :: "message list"
  warnings :: "message list"
  computed :: "string \<rightharpoonup> pyval"

section \<open>The evaluator\<close>

text \<open>
  The two lists \<^verbatim>\<open>alarms\<close> and \<^verbatim>\<open>warnings\<close> that the function appends to are
  passed as a pair through the sections of its body.
\<close>

type_synonym msgs = "message list \<times> message list"

definition append_alarm :: "message \<Rightarrow> msgs \<Rightarrow> msgs" where
  "append_alarm m s = (fst s @ [m], snd s)"

definition append_warning :: "message \<Rightarrow> msgs \<Rightarrow> msgs" where
  "append_warning m s = (fst s, snd s @ [m])"

text \<open>Lines 29 to 40: six independent checks.\<close>

definition validate_inputs :: "params \<Rightarrow> msgs \<Rightarrow> msgs" where
  "validate_inputs p s0 =
     (let s1 = (if py_le (weight_kg p) (Fin 0) then append_alarm Invalid_weight s0 else s0);
          s2 = (if py_lt (fio2 p) (Fin 0) \<or> py_gt (fio2 p) (Fin 100)
                then append_alarm Invalid_fio2 s1 else s1);
          s3 = (if py_lt (fresh_gas_flow_lpm p) (Fin 0)
                then append_alarm Invalid_fresh_gas_flow s2 else s2);
          s4 = (if py_lt (agent_percent p) (Fin 0)
                then append_alarm Invalid_agent_concentration s3 else s3);
          s5 = (if py_lt (resp_rate_bpm p) (Fin 0)
                then append_alarm Invalid_respiratory_rate s4 else s4);
          s6 = (if py_lt (tidal_volume_ml p) (Fin 0)
                then append_alarm Invalid_tidal_volume s5 else s5)
      in s6)"

text \<open>Lines 47 to 55: oxygen safety.\<close>

definition oxygen_safety :: "params \<Rightarrow> msgs \<Rightarrow> msgs" where
  "oxygen_safety p s0 =
     (let s1 = (if py_lt (fio2 p) (Fin 21) then append_alarm FiO2_below_21 s0
                else if py_lt (fio2 p) (Fin 30) then append_alarm Hypoxic_mixture_risk s0
                else if py_lt (fio2 p) (Fin 40) then append_warning Low_FiO2 s0
                else s0);
          s2 = (if hypoxic_guard_enabled p \<and> py_lt (fio2 p) (Fin 25)
                then append_alarm Hypoxic_guard s1 else s1)
      in s2)"

text \<open>Lines 58 to 66: fresh gas flow.\<close>

definition fresh_gas_flow :: "params \<Rightarrow> msgs \<Rightarrow> msgs" where
  "fresh_gas_flow p s0 =
     (let s1 = (if py_eq (fresh_gas_flow_lpm p) (Fin 0) \<and> py_gt (agent_percent p) (Fin 0)
                then append_alarm Agent_set_but_FGF_zero s0
                else if py_le (fresh_gas_flow_lpm p) (Fin 0.3) \<and> py_gt (agent_percent p) (Fin 0)
                then append_alarm FGF_very_low_with_agent s0
                else s0);
          s2 = (if py_lt (fresh_gas_flow_lpm p) (Fin 0.5)
                then append_warning Very_low_FGF s1 else s1);
          s3 = (if py_gt (fresh_gas_flow_lpm p) (Fin 10)
                then append_warning High_FGF s2 else s2)
      in s3)"

text \<open>Lines 69 to 75: the two dictionaries and the agent limits.\<close>

definition agent_alarm_max :: "string \<rightharpoonup> pyfloat" where
  "agent_alarm_max =
     [''Sevoflurane'' \<mapsto> Fin 4.0, ''Isoflurane'' \<mapsto> Fin 3.0, ''Desflurane'' \<mapsto> Fin 10.0]"

definition agent_warn_high :: "string \<rightharpoonup> pyfloat" where
  "agent_warn_high =
     [''Sevoflurane'' \<mapsto> Fin 3.0, ''Isoflurane'' \<mapsto> Fin 2.5, ''Desflurane'' \<mapsto> Fin 8.0]"

definition get_default :: "('k \<rightharpoonup> 'v) \<Rightarrow> 'k \<Rightarrow> 'v \<Rightarrow> 'v" where
  "get_default d k v = (case d k of None \<Rightarrow> v | Some x \<Rightarrow> x)"

definition agent_limits :: "params \<Rightarrow> msgs \<Rightarrow> msgs" where
  "agent_limits p s0 =
     (if py_gt (agent_percent p) (get_default agent_alarm_max (agent p) (Fin 5.0))
      then append_alarm (Agent_too_high (agent p) (agent_alarm_max (agent p))) s0
      else if py_gt (agent_percent p) (get_default agent_warn_high (agent p) (Fin 3.0))
      then append_warning (Agent_high (agent p) (agent_warn_high (agent p))) s0
      else s0)"

text \<open>Lines 78 and 79: the two derived quantities.\<close>

definition mv_lpm :: "params \<Rightarrow> py_error + pyfloat" where
  "mv_lpm p = py_truediv (py_mul (tidal_volume_ml p) (resp_rate_bpm p)) (Fin 1000.0)"

definition vt_ml_per_kg :: "params \<Rightarrow> py_error + pyfloat" where
  "vt_ml_per_kg p =
     (if py_gt (weight_kg p) (Fin 0) then py_truediv (tidal_volume_ml p) (weight_kg p)
      else Inr (Fin 0))"

text \<open>
  Lines 82 to 87: \<open>(vt_rec_low, vt_rec_high, mv_alarm_low, mv_warn_low)\<close> for the
  patient type.
\<close>

definition ranges :: "params \<Rightarrow> pyfloat \<times> pyfloat \<times> pyfloat \<times> pyfloat" where
  "ranges p =
     (if patient_type p = ''adult'' then (Fin 6.0, Fin 8.0, Fin 3.0, Fin 4.0)
      else (Fin 5.0, Fin 8.0, Fin 0.8, Fin 1.2))"

text \<open>Lines 90 to 98: tidal volume per kg.\<close>

definition vt_rules :: "pyfloat \<Rightarrow> pyfloat \<Rightarrow> pyfloat \<Rightarrow> msgs \<Rightarrow> msgs" where
  "vt_rules vt vt_rec_low vt_rec_high s0 =
     (let s1 = (if py_lt vt (Fin 4.0) then append_alarm (VT_too_low vt) s0
                else if py_lt vt vt_rec_low
                then append_warning (VT_below_recommended vt vt_rec_low vt_rec_high) s0
                else s0);
          s2 = (if py_gt vt (Fin 10.0) then append_alarm (VT_too_high vt) s1
                else if py_gt vt vt_rec_high
                then append_warning (VT_above_recommended vt vt_rec_low vt_rec_high) s1
                else s1)
      in s2)"

text \<open>Lines 101 to 106: respiratory rate.\<close>

definition rr_safety :: "params \<Rightarrow> msgs \<Rightarrow> msgs" where
  "rr_safety p s0 =
     (if py_lt (resp_rate_bpm p) (Fin 6) then append_alarm Apnea s0
      else if py_lt (resp_rate_bpm p) (Fin 8) then append_warning Low_RR s0
      else if py_gt (resp_rate_bpm p) (Fin 35) then append_warning High_RR s0
      else s0)"

text \<open>Lines 109 to 112: minute ventilation.\<close>

definition mv_adequacy :: "pyfloat \<Rightarrow> pyfloat \<Rightarrow> pyfloat \<Rightarrow> msgs \<Rightarrow> msgs" where
  "mv_adequacy mv mv_alarm_low mv_warn_low s0 =
     (if py_lt mv mv_alarm_low then append_alarm (Low_minute_ventilation mv) s0
      else if py_lt mv mv_warn_low then append_warning (Borderline_MV mv) s0
      else s0)"

text \<open>Lines 115 to 122: airway pressure, then the suspicion of a disconnection.\<close>

definition airway_pressure :: "params \<Rightarrow> pyfloat \<Rightarrow> pyfloat \<Rightarrow> msgs \<Rightarrow> msgs" where
  "airway_pressure p mv mv_warn_low s0 =
     (let s1 = (if py_gt (airway_pressure_cmh2o p) (Fin 40) then append_alarm High_airway_pressure s0
                else if py_gt (airway_pressure_cmh2o p) (Fin 30)
                then append_warning Elevated_airway_pressure s0
                else s0);
          s2 = (if py_lt (airway_pressure_cmh2o p) (Fin 5) \<and> py_lt mv mv_warn_low
                then append_alarm Possible_disconnection s1 else s1)
      in s2)"

text \<open>
  Lines 77 to 132, run once validation has passed: the rules after the two derived
  quantities, the status and the dictionary \<^verbatim>\<open>computed\<close>.
\<close>

definition ventilation :: "params \<Rightarrow> pyfloat \<Rightarrow> pyfloat \<Rightarrow> msgs \<Rightarrow> evaluation_result" where
  "ventilation p mv vt s0 =
     (case ranges p of (vt_rec_low, vt_rec_high, mv_alarm_low, mv_warn_low) \<Rightarrow>
        let s1 = vt_rules vt vt_rec_low vt_rec_high s0;
            s2 = rr_safety p s1;
            s3 = mv_adequacy mv mv_alarm_low mv_warn_low s2;
            s4 = airway_pressure p mv mv_warn_low s3
        in \<lparr>status = (if fst s4 \<noteq> [] then ''ALARM''
                      else if snd s4 \<noteq> [] then ''WARNING'' else ''RUNNING''),
            alarms = fst s4,
            warnings = snd s4,
            computed = [''MV_Lmin'' \<mapsto> PyFloat (py_round2 mv),
                        ''VT_mLkg'' \<mapsto> PyFloat (py_round2 vt),
                        ''VT_target_mLkg'' \<mapsto> PyStr (py_str vt_rec_low @ ''-'' @ py_str vt_rec_high)]\<rparr>)"

text \<open>
  The whole function. A raised \<^verbatim>\<open>ZeroDivisionError\<close> is the result \<open>Inl\<close>; the early
  return of line 44 is the first branch.
\<close>

definition evaluate_anesthesia_realistic :: "params \<Rightarrow> py_error + evaluation_result" where
  "evaluate_anesthesia_realistic p =
     (let s0 = validate_inputs p ([], []) in
      if fst s0 \<noteq> []
      then Inr \<lparr>status = ''ALARM'', alarms = fst s0, warnings = snd s0, computed = Map.empty\<rparr>
      else
        let s1 = oxygen_safety p s0;
            s2 = fresh_gas_flow p s1;
            s3 = agent_limits p s2
        in case mv_lpm p of
             Inl e \<Rightarrow> Inl e
           | Inr mv \<Rightarrow>
               (case vt_ml_per_kg p of
                  Inl e \<Rightarrow> Inl e
                | Inr vt \<Rightarrow> Inr (ventilation p mv vt s3)))"

section \<open>Derived notions used in the statements\<close>

text \<open>
  An input passes the validation stage when none of the six checks of lines 29 to 40
  fires.
\<close>

definition passes_validation :: "params \<Rightarrow> bool" where
  "passes_validation p \<longleftrightarrow>
     \<not> py_le (weight_kg p) (Fin 0) \<and>
     \<not> py_lt (fio2 p) (Fin 0) \<and> \<not> py_gt (fio2 p) (Fin 100) \<and>
     \<not> py_lt (fresh_gas_flow_lpm p) (Fin 0) \<and>
     \<not> py_lt (agent_percent p) (Fin 0) \<and>
     \<not> py_lt (resp_rate_bpm p) (Fin 0) \<and>
     \<not> py_lt (tidal_volume_ml p) (Fin 0)"

definition mv_value :: "params \<Rightarrow> pyfloat" where
  "mv_value p = quotient (py_mul (tidal_volume_ml p) (resp_rate_bpm p)) (Fin 1000)"

definition vt_value :: "params \<Rightarrow> pyfloat" where
  "vt_value p =
     (if py_gt (weight_kg p) (Fin 0) then quotient (tidal_volume_ml p) (weight_kg p) else Fin 0)"

definition vt_rec_low :: "params \<Rightarrow> pyfloat" where
  "vt_rec_low p = fst (ranges p)"
definition vt_rec_high :: "params \<Rightarrow> pyfloat" where
  "vt_rec_high p = fst (snd (ranges p))"
definition mv_alarm_low :: "params \<Rightarrow> pyfloat" where
  "mv_alarm_low p = fst (snd (snd (ranges p)))"
definition mv_warn_low :: "params \<Rightarrow> pyfloat" where
  "mv_warn_low p = snd (snd (snd (ranges p)))"

definition clinical :: "params \<Rightarrow> msgs" where
  "clinical p =
     airway_pressure p (mv_value p) (mv_warn_low p)
       (mv_adequacy (mv_value p) (mv_alarm_low p) (mv_warn_low p)
         (rr_safety p
           (vt_rules (vt_value p) (vt_rec_low p) (vt_rec_high p)
             (agent_limits p (fresh_gas_flow p (oxygen_safety p ([], [])))))))"

text \<open>Scenario A of the specification: the defaults of the form.\<close>

definition scenario_a :: params where
  "scenario_a =
     \<lparr>patient_type = ''adult'', weight_kg = Fin 70, fio2 = Fin 50, fresh_gas_flow_lpm = Fin 4,
      agent = ''Sevoflurane'', agent_percent = Fin 2, airway_pressure_cmh2o = Fin 18,
      tidal_volume_ml = Fin 500, resp_rate_bpm = Fin 12, hypoxic_guard_enabled = True\<rparr>"

text \<open>
  The other concrete inputs of the development, each a variation of scenario A: scenario
  B (FiO2 of 22), the compound rule of the specification, scenario C (Desflurane at 11
  percent), a respiratory rate chosen freely, a fresh gas flow of 0.2, an input that
  fails three validity checks, and a weight that is not a number.
\<close>

definition scenario_b :: params where
  "scenario_b = scenario_a\<lparr>fio2 := Fin 22\<rparr>"

definition compound_input :: params where
  "compound_input =
     scenario_a\<lparr>airway_pressure_cmh2o := Fin 3, tidal_volume_ml := Fin 200, resp_rate_bpm := Fin 6\<rparr>"

definition scenario_c :: params where
  "scenario_c = scenario_a\<lparr>agent := ''Desflurane'', agent_percent := Fin 11\<rparr>"

definition rr_input :: "real \<Rightarrow> params" where
  "rr_input x = scenario_a\<lparr>resp_rate_bpm := Fin x\<rparr>"

definition low_fgf_input :: params where
  "low_fgf_input = scenario_a\<lparr>fresh_gas_flow_lpm := Fin 0.2\<rparr>"

definition invalid_input :: params where
  "invalid_input = scenario_a\<lparr>weight_kg := Fin 0, fio2 := Fin 150, tidal_volume_ml := Fin (- 1)\<rparr>"

definition nan_weight_input :: params where
  "nan_weight_input = scenario_a\<lparr>weight_kg := NaN\<rparr>"

section \<open>The sections of the body only append\<close>

declare digits.simps [simp del]

lemma validate_inputs_alarms:
  "fst (validate_inputs p ([], [])) =
     (if py_le (weight_kg p) (Fin 0) then [Invalid_weight] else []) @
     (if py_lt (fio2 p) (Fin 0) \<or> py_gt (fio2 p) (Fin 100) then [Invalid_fio2] else []) @
     (if py_lt (fresh_gas_flow_lpm p) (Fin 0) then [Invalid_fresh_gas_flow] else []) @
     (if py_lt (agent_percent p) (Fin 0) then [Invalid_agent_concentration] else []) @
     (if py_lt (resp_rate_bpm p) (Fin 0) then [Invalid_respiratory_rate] else []) @
     (if py_lt (tidal_volume_ml p) (Fin 0) then [Invalid_tidal_volume] else [])"
  by (simp add: validate_inputs_def append_alarm_def Let_def)

lemma validate_inputs_warnings: "snd (validate_inputs p ([], [])) = []"
  by (simp add: validate_inputs_def append_alarm_def Let_def)

lemma passes_validation_iff: "passes_validation p \<longleftrightarrow> fst (validate_inputs p ([], [])) = []"
  by (simp add: validate_inputs_alarms passes_validation_def)

lemma validate_inputs_passes: "passes_validation p \<Longrightarrow> validate_inputs p ([], []) = ([], [])"
  by (simp add: passes_validation_iff validate_inputs_warnings prod_eq_iff)

lemma py_gt_zero_not_eq: "py_gt w (Fin 0) \<Longrightarrow> \<not> py_eq w (Fin 0)"
  by (cases w) (simp_all add: py_gt_def)

lemma mv_lpm_value: "mv_lpm p = Inr (mv_value p)"
  by (simp add: mv_lpm_def mv_value_def py_truediv_def)

lemma vt_ml_per_kg_value: "vt_ml_per_kg p = Inr (vt_value p)"
  by (simp add: vt_ml_per_kg_def vt_value_def py_truediv_def py_gt_zero_not_eq)

lemma ranges_split: "ranges p = (vt_rec_low p, vt_rec_high p, mv_alarm_low p, mv_warn_low p)"
  by (simp add: vt_rec_low_def vt_rec_high_def mv_alarm_low_def mv_warn_low_def)

lemma evaluate_valid:
  assumes "passes_validation p"
  shows "evaluate_anesthesia_realistic p =
    Inr \<lparr>status = (if fst (clinical p) \<noteq> [] then ''ALARM''
                   else if snd (clinical p) \<noteq> [] then ''WARNING'' else ''RUNNING''),
         alarms = fst (clinical p),
         warnings = snd (clinical p),
         computed = [''MV_Lmin'' \<mapsto> PyFloat (py_round2 (mv_value p)),
                     ''VT_mLkg'' \<mapsto> PyFloat (py_round2 (vt_value p)),
                     ''VT_target_mLkg'' \<mapsto>
                        PyStr (py_str (vt_rec_low p) @ ''-'' @ py_str (vt_rec_high p))]\<rparr>"
proof -
  have v: "validate_inputs p ([], []) = ([], [])"
    using assms by (rule validate_inputs_passes)
  show ?thesis
    unfolding evaluate_anesthesia_realistic_def v mv_lpm_value vt_ml_per_kg_value
      ventilation_def ranges_split clinical_def
    by (simp add: Let_def)
qed

lemma evaluate_invalid:
  assumes "\<not> passes_validation p"
  shows "evaluate_anesthesia_realistic p =
    Inr \<lparr>status = ''ALARM'', alarms = fst (validate_inputs p ([], [])), warnings = [],
         computed = Map.empty\<rparr>"
  using assms
  by (simp add: evaluate_anesthesia_realistic_def passes_validation_iff validate_inputs_warnings Let_def)

lemma oxygen_safety_append:
  "oxygen_safety p s =
     (fst s @ fst (oxygen_safety p ([], [])), snd s @ snd (oxygen_safety p ([], [])))"
  by (simp add: oxygen_safety_def append_alarm_def append_warning_def Let_def)

lemma fresh_gas_flow_append:
  "fresh_gas_flow p s =
     (fst s @ fst (fresh_gas_flow p ([], [])), snd s @ snd (fresh_gas_flow p ([], [])))"
  by (simp add: fresh_gas_flow_def append_alarm_def append_warning_def Let_def)

lemma agent_limits_append:
  "agent_limits p s =
     (fst s @ fst (agent_limits p ([], [])), snd s @ snd (agent_limits p ([], [])))"
  by (simp add: agent_limits_def append_alarm_def append_warning_def)

lemma vt_rules_append:
  "vt_rules vt lo hi s =
     (fst s @ fst (vt_rules vt lo hi ([], [])), snd s @ snd (vt_rules vt lo hi ([], [])))"
  by (simp add: vt_rules_def append_alarm_def append_warning_def Let_def)

lemma rr_safety_append:
  "rr_safety p s = (fst s @ fst (rr_safety p ([], [])), snd s @ snd (rr_safety p ([], [])))"
  by (simp add: rr_safety_def append_alarm_def append_warning_def)

lemma mv_adequacy_append:
  "mv_adequacy mv al wl s =
     (fst s @ fst (mv_adequacy mv al wl ([], [])), snd s @ snd (mv_adequacy mv al wl ([], [])))"
  by (simp add: mv_adequacy_def append_alarm_def append_warning_def)

lemma airway_pressure_append:
  "airway_pressure p mv wl s =
     (fst s @ fst (airway_pressure p mv wl ([], [])), snd s @ snd (airway_pressure p mv wl ([], [])))"
  by (simp add: airway_pressure_def append_alarm_def append_warning_def Let_def)

lemma clinical_lists:
  "clinical p =
     (fst (oxygen_safety p ([], [])) @ fst (fresh_gas_flow p ([], [])) @
      fst (agent_limits p ([], [])) @
      fst (vt_rules (vt_value p) (vt_rec_low p) (vt_rec_high p) ([], [])) @
      fst (rr_safety p ([], [])) @
      fst (mv_adequacy (mv_value p) (mv_alarm_low p) (mv_warn_low p) ([], [])) @
      fst (airway_pressure p (mv_value p) (mv_warn_low p) ([], [])),
      snd (oxygen_safety p ([], [])) @ snd (fresh_gas_flow p ([], [])) @
      snd (agent_limits p ([], [])) @
      snd (vt_rules (vt_value p) (vt_rec_low p) (vt_rec_high p) ([], [])) @
      snd (rr_safety p ([], [])) @
      snd (mv_adequacy (mv_value p) (mv_alarm_low p) (mv_warn_low p) ([], [])) @
      snd (airway_pressure p (mv_value p) (mv_warn_low p) ([], [])))"
proof -
  define s1 where "s1 = oxygen_safety p ([], [])"
  define s2 where "s2 = fresh_gas_flow p s1"
  define s3 where "s3 = agent_limits p s2"
  define s4 where "s4 = vt_rules (vt_value p) (vt_rec_low p) (vt_rec_high p) s3"
  define s5 where "s5 = rr_safety p s4"
  define s6 where "s6 = mv_adequacy (mv_value p) (mv_alarm_low p) (mv_warn_low p) s5"
  define s7 where "s7 = airway_pressure p (mv_value p) (mv_warn_low p) s6"
  have c: "clinical p = s7"
    by (simp add: clinical_def s1_def s2_def s3_def s4_def s5_def s6_def s7_def)
  have e2: "s2 = (fst s1 @ fst (fresh_gas_flow p ([], [])), snd s1 @ snd (fresh_gas_flow p ([], [])))"
    unfolding s2_def by (rule fresh_gas_flow_append)
  have e3: "s3 = (fst s2 @ fst (agent_limits p ([], [])), snd s2 @ snd (agent_limits p ([], [])))"
    unfolding s3_def by (rule agent_limits_append)
  have e4: "s4 = (fst s3 @ fst (vt_rules (vt_value p) (vt_rec_low p) (vt_rec_high p) ([], [])),
                  snd s3 @ snd (vt_rules (vt_value p) (vt_rec_low p) (vt_rec_high p) ([], [])))"
    unfolding s4_def by (rule vt_rules_append)
  have e5: "s5 = (fst s4 @ fst (rr_safety p ([], [])), snd s4 @ snd (rr_safety p ([], [])))"
    unfolding s5_def by (rule rr_safety_append)
  have e6: "s6 = (fst s5 @ fst (mv_adequacy (mv_value p) (mv_alarm_low p) (mv_warn_low p) ([], [])),
                  snd s5 @ snd (mv_adequacy (mv_value p) (mv_alarm_low p) (mv_warn_low p) ([], [])))"
    unfolding s6_def by (rule mv_adequacy_append)
  have e7: "s7 = (fst s6 @ fst (airway_pressure p (mv_value p) (mv_warn_low p) ([], [])),
                  snd s6 @ snd (airway_pressure p (mv_value p) (mv_warn_low p) ([], [])))"
    unfolding s7_def by (rule airway_pressure_append)
  show ?thesis
    unfolding c by (simp add: e7 e6 e5 e4 e3 e2 s1_def)
qed

lemma oxygen_alarm_iff:
  "m \<in> set (fst (oxygen_safety p ([], []))) \<longleftrightarrow>
     m = FiO2_below_21 \<and> py_lt (fio2 p) (Fin 21) \<or>
     m = Hypoxic_mixture_risk \<and> \<not> py_lt (fio2 p) (Fin 21) \<and> py_lt (fio2 p) (Fin 30) \<or>
     m = Hypoxic_guard \<and> hypoxic_guard_enabled p \<and> py_lt (fio2 p) (Fin 25)"
  by (auto simp: oxygen_safety_def append_alarm_def append_warning_def Let_def)

lemma oxygen_warning_iff:
  "m \<in> set (snd (oxygen_safety p ([], []))) \<longleftrightarrow>
     m = Low_FiO2 \<and> \<not> py_lt (fio2 p) (Fin 21) \<and> \<not> py_lt (fio2 p) (Fin 30) \<and>
       py_lt (fio2 p) (Fin 40)"
  by (auto simp: oxygen_safety_def append_alarm_def append_warning_def Let_def)

lemma fresh_gas_flow_alarm_iff:
  "m \<in> set (fst (fresh_gas_flow p ([], []))) \<longleftrightarrow>
     m = Agent_set_but_FGF_zero \<and> py_eq (fresh_gas_flow_lpm p) (Fin 0) \<and>
       py_gt (agent_percent p) (Fin 0) \<or>
     m = FGF_very_low_with_agent \<and> \<not> py_eq (fresh_gas_flow_lpm p) (Fin 0) \<and>
       py_le (fresh_gas_flow_lpm p) (Fin 0.3) \<and> py_gt (agent_percent p) (Fin 0)"
  by (auto simp: fresh_gas_flow_def append_alarm_def append_warning_def Let_def)

lemma fresh_gas_flow_warning_iff:
  "m \<in> set (snd (fresh_gas_flow p ([], []))) \<longleftrightarrow>
     m = Very_low_FGF \<and> py_lt (fresh_gas_flow_lpm p) (Fin 0.5) \<or>
     m = High_FGF \<and> py_gt (fresh_gas_flow_lpm p) (Fin 10)"
  by (auto simp: fresh_gas_flow_def append_alarm_def append_warning_def Let_def)

lemma agent_limits_alarm_iff:
  "m \<in> set (fst (agent_limits p ([], []))) \<longleftrightarrow>
     m = Agent_too_high (agent p) (agent_alarm_max (agent p)) \<and>
       py_gt (agent_percent p) (get_default agent_alarm_max (agent p) (Fin 5))"
  by (auto simp: agent_limits_def append_alarm_def append_warning_def)

lemma agent_limits_warning_iff:
  "m \<in> set (snd (agent_limits p ([], []))) \<longleftrightarrow>
     m = Agent_high (agent p) (agent_warn_high (agent p)) \<and>
       \<not> py_gt (agent_percent p) (get_default agent_alarm_max (agent p) (Fin 5)) \<and>
       py_gt (agent_percent p) (get_default agent_warn_high (agent p) (Fin 3))"
  by (auto simp: agent_limits_def append_alarm_def append_warning_def)

lemma vt_rules_alarm_iff:
  "m \<in> set (fst (vt_rules vt lo hi ([], []))) \<longleftrightarrow>
     m = VT_too_low vt \<and> py_lt vt (Fin 4) \<or> m = VT_too_high vt \<and> py_gt vt (Fin 10)"
  by (auto simp: vt_rules_def append_alarm_def append_warning_def Let_def)

lemma vt_rules_warning_iff:
  "m \<in> set (snd (vt_rules vt lo hi ([], []))) \<longleftrightarrow>
     m = VT_below_recommended vt lo hi \<and> \<not> py_lt vt (Fin 4) \<and> py_lt vt lo \<or>
     m = VT_above_recommended vt lo hi \<and> \<not> py_gt vt (Fin 10) \<and> py_gt vt hi"
  by (auto simp: vt_rules_def append_alarm_def append_warning_def Let_def)

lemma rr_safety_alarm_iff:
  "m \<in> set (fst (rr_safety p ([], []))) \<longleftrightarrow> m = Apnea \<and> py_lt (resp_rate_bpm p) (Fin 6)"
  by (auto simp: rr_safety_def append_alarm_def append_warning_def)

lemma rr_safety_warning_iff:
  "m \<in> set (snd (rr_safety p ([], []))) \<longleftrightarrow>
     m = Low_RR \<and> \<not> py_lt (resp_rate_bpm p) (Fin 6) \<and> py_lt (resp_rate_bpm p) (Fin 8) \<or>
     m = High_RR \<and> \<not> py_lt (resp_rate_bpm p) (Fin 6) \<and> \<not> py_lt (resp_rate_bpm p) (Fin 8) \<and>
       py_gt (resp_rate_bpm p) (Fin 35)"
  by (auto simp: rr_safety_def append_alarm_def append_warning_def)

lemma mv_adequacy_alarm_iff:
  "m \<in> set (fst (mv_adequacy mv al wl ([], []))) \<longleftrightarrow>
     m = Low_minute_ventilation mv \<and> py_lt mv al"
  by (auto simp: mv_adequacy_def append_alarm_def append_warning_def)

lemma mv_adequacy_warning_iff:
  "m \<in> set (snd (mv_adequacy mv al wl ([], []))) \<longleftrightarrow>
     m = Borderline_MV mv \<and> \<not> py_lt mv al \<and> py_lt mv wl"
  by (auto simp: mv_adequacy_def append_alarm_def append_warning_def)

lemma airway_pressure_alarm_iff:
  "m \<in> set (fst (airway_pressure p mv wl ([], []))) \<longleftrightarrow>
     m = High_airway_pressure \<and> py_gt (airway_pressure_cmh2o p) (Fin 40) \<or>
     m = Possible_disconnection \<and> py_lt (airway_pressure_cmh2o p) (Fin 5) \<and> py_lt mv wl"
  by (auto simp: airway_pressure_def append_alarm_def append_warning_def Let_def)

lemma airway_pressure_warning_iff:
  "m \<in> set (snd (airway_pressure p mv wl ([], []))) \<longleftrightarrow>
     m = Elevated_airway_pressure \<and> \<not> py_gt (airway_pressure_cmh2o p) (Fin 40) \<and>
       py_gt (airway_pressure_cmh2o p) (Fin 30)"
  by (auto simp: airway_pressure_def append_alarm_def append_warning_def Let_def)

lemmas alarm_iffs = oxygen_alarm_iff fresh_gas_flow_alarm_iff agent_limits_alarm_iff
  vt_rules_alarm_iff rr_safety_alarm_iff mv_adequacy_alarm_iff airway_pressure_alarm_iff

lemmas warning_iffs = oxygen_warning_iff fresh_gas_flow_warning_iff agent_limits_warning_iff
  vt_rules_warning_iff rr_safety_warning_iff mv_adequacy_warning_iff airway_pressure_warning_iff

section \<open>Facts shared by the claims\<close>

lemma evaluate_total: "\<exists>r. evaluate_anesthesia_realistic p = Inr r"
  by (cases "passes_validation p") (simp_all add: evaluate_valid evaluate_invalid)

lemma evaluate_status:
  assumes "evaluate_anesthesia_realistic p = Inr r"
  shows "status r = (if alarms r \<noteq> [] then ''ALARM''
                     else if warnings r \<noteq> [] then ''WARNING'' else ''RUNNING'')"
proof (cases "passes_validation p")
  case True
  with assms show ?thesis by (auto simp: evaluate_valid)
next
  case False
  then have "fst (validate_inputs p ([], [])) \<noteq> []"
    by (simp add: passes_validation_iff)
  with False assms show ?thesis by (auto simp: evaluate_invalid)
qed

lemma evaluate_valid_fields:
  assumes "passes_validation p"
  obtains r where "evaluate_anesthesia_realistic p = Inr r"
    and "alarms r = fst (clinical p)" and "warnings r = snd (clinical p)"
    and "status r = (if fst (clinical p) \<noteq> [] then ''ALARM''
                     else if snd (clinical p) \<noteq> [] then ''WARNING'' else ''RUNNING'')"
  using evaluate_valid [OF assms] by simp

lemma py_lt_not_eq: "py_lt a b \<Longrightarrow> \<not> py_eq b a"
  by (cases a; cases b) simp_all

lemma filter_none: "(\<And>x. x \<in> set xs \<Longrightarrow> \<not> P x) \<Longrightarrow> filter P xs = []"
  by (simp add: filter_empty_conv)

lemma oxygen_bands_once:
  "length (filter (\<lambda>m. m \<in> {FiO2_below_21, Hypoxic_mixture_risk, Low_FiO2})
     (fst (oxygen_safety p ([], [])) @ snd (oxygen_safety p ([], [])))) \<le> 1"
  by (simp add: oxygen_safety_def append_alarm_def append_warning_def Let_def)

lemma oxygen_guard_filter:
  "filter (\<lambda>m. m = Hypoxic_guard) (fst (oxygen_safety p ([], []))) =
     (if hypoxic_guard_enabled p \<and> py_lt (fio2 p) (Fin 25) then [Hypoxic_guard] else [])"
  by (simp add: oxygen_safety_def append_alarm_def append_warning_def Let_def)

lemma clinical_band_filter:
  "filter (\<lambda>m. m \<in> {FiO2_below_21, Hypoxic_mixture_risk, Low_FiO2})
     (fst (clinical p) @ snd (clinical p)) =
   filter (\<lambda>m. m \<in> {FiO2_below_21, Hypoxic_mixture_risk, Low_FiO2})
     (fst (oxygen_safety p ([], [])) @ snd (oxygen_safety p ([], [])))"
proof -
  let ?P = "\<lambda>m. m \<in> {FiO2_below_21, Hypoxic_mixture_risk, Low_FiO2}"
  have a: "filter ?P (fst (fresh_gas_flow p ([], []))) = []"
    "filter ?P (fst (agent_limits p ([], []))) = []"
    "filter ?P (fst (vt_rules (vt_value p) (vt_rec_low p) (vt_rec_high p) ([], []))) = []"
    "filter ?P (fst (rr_safety p ([], []))) = []"
    "filter ?P (fst (mv_adequacy (mv_value p) (mv_alarm_low p) (mv_warn_low p) ([], []))) = []"
    "filter ?P (fst (airway_pressure p (mv_value p) (mv_warn_low p) ([], []))) = []"
    by (rule filter_none, auto simp: alarm_iffs)+
  have w: "filter ?P (snd (fresh_gas_flow p ([], []))) = []"
    "filter ?P (snd (agent_limits p ([], []))) = []"
    "filter ?P (snd (vt_rules (vt_value p) (vt_rec_low p) (vt_rec_high p) ([], []))) = []"
    "filter ?P (snd (rr_safety p ([], []))) = []"
    "filter ?P (snd (mv_adequacy (mv_value p) (mv_alarm_low p) (mv_warn_low p) ([], []))) = []"
    "filter ?P (snd (airway_pressure p (mv_value p) (mv_warn_low p) ([], []))) = []"
    by (rule filter_none, auto simp: warning_iffs)+
  show ?thesis
    unfolding clinical_lists fst_conv snd_conv filter_append a w by simp
qed

lemma clinical_guard_filter:
  "filter (\<lambda>m. m = Hypoxic_guard) (fst (clinical p)) =
   filter (\<lambda>m. m = Hypoxic_guard) (fst (oxygen_safety p ([], [])))"
proof -
  let ?P = "\<lambda>m. m = Hypoxic_guard"
  have a: "filter ?P (fst (fresh_gas_flow p ([], []))) = []"
    "filter ?P (fst (agent_limits p ([], []))) = []"
    "filter ?P (fst (vt_rules (vt_value p) (vt_rec_low p) (vt_rec_high p) ([], []))) = []"
    "filter ?P (fst (rr_safety p ([], []))) = []"
    "filter ?P (fst (mv_adequacy (mv_value p) (mv_alarm_low p) (mv_warn_low p) ([], []))) = []"
    "filter ?P (fst (airway_pressure p (mv_value p) (mv_warn_low p) ([], []))) = []"
    by (rule filter_none, auto simp: alarm_iffs)+
  show ?thesis
    unfolding clinical_lists fst_conv filter_append a by simp
qed

lemma mv_warn_low_eq: "mv_warn_low p = (if patient_type p = ''adult'' then Fin 4.0 else Fin 1.2)"
  by (simp add: mv_warn_low_def ranges_def)

lemma mv_alarm_low_eq: "mv_alarm_low p = (if patient_type p = ''adult'' then Fin 3.0 else Fin 0.8)"
  by (simp add: mv_alarm_low_def ranges_def)

lemma alarm_max_eq:
  "get_default agent_alarm_max a (Fin 5.0) =
     (if a = ''Sevoflurane'' then Fin 4.0 else if a = ''Isoflurane'' then Fin 3.0
      else if a = ''Desflurane'' then Fin 10.0 else Fin 5.0)"
  by (simp add: get_default_def agent_alarm_max_def)

lemma warn_high_eq:
  "get_default agent_warn_high a (Fin 3.0) =
     (if a = ''Sevoflurane'' then Fin 3.0 else if a = ''Isoflurane'' then Fin 2.5
      else if a = ''Desflurane'' then Fin 8.0 else Fin 3.0)"
  by (simp add: get_default_def agent_warn_high_def)

lemma validated_weight_positive:
  assumes "passes_validation p" and "weight_kg p \<noteq> NaN"
  shows "py_gt (weight_kg p) (Fin 0)"
proof -
  from assms(1) have "\<not> py_le (weight_kg p) (Fin 0)"
    by (simp add: passes_validation_def)
  with assms(2) show ?thesis
    by (cases "weight_kg p") (simp_all add: py_gt_def)
qed

section \<open>The claims\<close>

text \<open>
  Claim C1. For every input the evaluator returns a result, and the status of the result
  is \<^verbatim>\<open>ALARM\<close> when the list of alarms is not empty, otherwise \<^verbatim>\<open>WARNING\<close> when the
  list of warnings is not empty, otherwise \<^verbatim>\<open>RUNNING\<close>: one of the three values.
\<close>

theorem status_precedence:
  "\<exists>r. evaluate_anesthesia_realistic p = Inr r \<and>
       status r = (if alarms r \<noteq> [] then ''ALARM''
                   else if warnings r \<noteq> [] then ''WARNING'' else ''RUNNING'') \<and>
       status r \<in> {''ALARM'', ''WARNING'', ''RUNNING''}"
proof -
  obtain r where r: "evaluate_anesthesia_realistic p = Inr r"
    using evaluate_total by blast
  have s: "status r = (if alarms r \<noteq> [] then ''ALARM''
                       else if warnings r \<noteq> [] then ''WARNING'' else ''RUNNING'')"
    using r by (rule evaluate_status)
  have "status r \<in> {''ALARM'', ''WARNING'', ''RUNNING''}"
    unfolding s by simp
  with r s show ?thesis by blast
qed



text \<open>
  Claim C3. For every input that passes validation: each of the three FiO2 band
  messages is present exactly under its condition (below 21; else below 30; else below
  40), at most one of them occurs in the result, and the hypoxic guard alarm occurs once
  when the guard is enabled and FiO2 is below 25, and not otherwise. With a FiO2 of 22
  the hypoxic mixture alarm is present, the below-21 message is not, and the status is
  \<^verbatim>\<open>ALARM\<close>.
\<close>

theorem oxygen_rule:
  assumes "passes_validation p"
  shows "\<exists>r. evaluate_anesthesia_realistic p = Inr r \<and>
           (FiO2_below_21 \<in> set (alarms r) \<longleftrightarrow> py_lt (fio2 p) (Fin 21)) \<and>
           (Hypoxic_mixture_risk \<in> set (alarms r) \<longleftrightarrow>
              \<not> py_lt (fio2 p) (Fin 21) \<and> py_lt (fio2 p) (Fin 30)) \<and>
           (Low_FiO2 \<in> set (warnings r) \<longleftrightarrow>
              \<not> py_lt (fio2 p) (Fin 21) \<and> \<not> py_lt (fio2 p) (Fin 30) \<and> py_lt (fio2 p) (Fin 40)) \<and>
           length (filter (\<lambda>m. m \<in> {FiO2_below_21, Hypoxic_mixture_risk, Low_FiO2})
                     (alarms r @ warnings r)) \<le> 1 \<and>
           filter (\<lambda>m. m = Hypoxic_guard) (alarms r) =
             (if hypoxic_guard_enabled p \<and> py_lt (fio2 p) (Fin 25) then [Hypoxic_guard] else []) \<and>
           (fio2 p = Fin 22 \<longrightarrow>
              Hypoxic_mixture_risk \<in> set (alarms r) \<and> FiO2_below_21 \<notin> set (alarms r) \<and>
              status r = ''ALARM'')"
proof -
  have 1: "FiO2_below_21 \<in> set (fst (clinical p)) \<longleftrightarrow> py_lt (fio2 p) (Fin 21)"
    by (simp add: clinical_lists alarm_iffs)
  have 2: "Hypoxic_mixture_risk \<in> set (fst (clinical p)) \<longleftrightarrow>
             \<not> py_lt (fio2 p) (Fin 21) \<and> py_lt (fio2 p) (Fin 30)"
    by (simp add: clinical_lists alarm_iffs)
  have 3: "Low_FiO2 \<in> set (snd (clinical p)) \<longleftrightarrow>
             \<not> py_lt (fio2 p) (Fin 21) \<and> \<not> py_lt (fio2 p) (Fin 30) \<and> py_lt (fio2 p) (Fin 40)"
    by (simp add: clinical_lists warning_iffs)
  have 4: "length (filter (\<lambda>m. m \<in> {FiO2_below_21, Hypoxic_mixture_risk, Low_FiO2})
             (fst (clinical p) @ snd (clinical p))) \<le> 1"
    unfolding clinical_band_filter by (rule oxygen_bands_once)
  have 5: "filter (\<lambda>m. m = Hypoxic_guard) (fst (clinical p)) =
             (if hypoxic_guard_enabled p \<and> py_lt (fio2 p) (Fin 25) then [Hypoxic_guard] else [])"
    unfolding clinical_guard_filter by (rule oxygen_guard_filter)
  have 6: "fst (clinical p) \<noteq> []" if "fio2 p = Fin 22"
  proof -
    have "Hypoxic_mixture_risk \<in> set (fst (clinical p))"
      unfolding 2 using that by simp
    then show ?thesis by auto
  qed
  have 7: "Hypoxic_mixture_risk \<in> set (fst (clinical p)) \<and> FiO2_below_21 \<notin> set (fst (clinical p))"
    if "fio2 p = Fin 22"
    unfolding 1 2 using that by simp
  show ?thesis
    unfolding evaluate_valid [OF assms] using 1 2 3 4 5 6 7 by simp
qed

text \<open>
  Scenario B with the guard enabled: the band alarm and the guard alarm occur together.
\<close>

theorem oxygen_rule_witness:
  "passes_validation scenario_b \<and>
   (\<exists>r. evaluate_anesthesia_realistic scenario_b = Inr r \<and>
        Hypoxic_mixture_risk \<in> set (alarms r) \<and> Hypoxic_guard \<in> set (alarms r) \<and>
        FiO2_below_21 \<notin> set (alarms r) \<and> Low_FiO2 \<notin> set (warnings r) \<and>
        status r = ''ALARM'')"
proof -
  have h: "passes_validation scenario_b"
    by (simp add: passes_validation_def scenario_b_def scenario_a_def py_gt_def)
  have f: "fio2 scenario_b = Fin 22" "hypoxic_guard_enabled scenario_b"
    by (simp_all add: scenario_b_def scenario_a_def)
  from oxygen_rule [OF h] obtain r where
    r: "evaluate_anesthesia_realistic scenario_b = Inr r"
    and a: "FiO2_below_21 \<in> set (alarms r) \<longleftrightarrow> py_lt (fio2 scenario_b) (Fin 21)"
    and b: "Hypoxic_mixture_risk \<in> set (alarms r) \<longleftrightarrow>
              \<not> py_lt (fio2 scenario_b) (Fin 21) \<and> py_lt (fio2 scenario_b) (Fin 30)"
    and c: "Low_FiO2 \<in> set (warnings r) \<longleftrightarrow>
              \<not> py_lt (fio2 scenario_b) (Fin 21) \<and> \<not> py_lt (fio2 scenario_b) (Fin 30) \<and>
              py_lt (fio2 scenario_b) (Fin 40)"
    and g: "filter (\<lambda>m. m = Hypoxic_guard) (alarms r) =
             (if hypoxic_guard_enabled scenario_b \<and> py_lt (fio2 scenario_b) (Fin 25)
              then [Hypoxic_guard] else [])"
    and s: "fio2 scenario_b = Fin 22 \<longrightarrow>
              Hypoxic_mixture_risk \<in> set (alarms r) \<and> FiO2_below_21 \<notin> set (alarms r) \<and>
              status r = ''ALARM''"
    by blast
  from g have "filter (\<lambda>m. m = Hypoxic_guard) (alarms r) = [Hypoxic_guard]"
    by (simp add: f)
  then have "Hypoxic_guard \<in> set (filter (\<lambda>m. m = Hypoxic_guard) (alarms r))"
    by simp
  then have g': "Hypoxic_guard \<in> set (alarms r)"
    by simp
  from c have c': "Low_FiO2 \<notin> set (warnings r)"
    by (simp add: f)
  from h r s f g' c' show ?thesis by blast
qed

text \<open>
  Claim C4. For every input that passes validation, with an airway pressure below 5 and
  a computed minute ventilation below the warn-low threshold of the patient type (4.0
  for an adult, 1.2 otherwise), the disconnection alarm is present. With pressure 3,
  tidal volume 200, respiratory rate 6 and weight 70 for an adult, the minute
  ventilation is 1.2 and both the disconnection alarm and the low minute ventilation
  alarm are present.
\<close>

theorem disconnection_rule:
  assumes "passes_validation p"
  shows "\<exists>r mv. evaluate_anesthesia_realistic p = Inr r \<and> mv_lpm p = Inr mv \<and>
           (py_lt (airway_pressure_cmh2o p) (Fin 5) \<and>
            py_lt mv (if patient_type p = ''adult'' then Fin 4.0 else Fin 1.2) \<longrightarrow>
              Possible_disconnection \<in> set (alarms r)) \<and>
           (patient_type p = ''adult'' \<and> weight_kg p = Fin 70 \<and>
            airway_pressure_cmh2o p = Fin 3 \<and> tidal_volume_ml p = Fin 200 \<and>
            resp_rate_bpm p = Fin 6 \<longrightarrow>
              mv = Fin 1.2 \<and> Possible_disconnection \<in> set (alarms r) \<and>
              Low_minute_ventilation (Fin 1.2) \<in> set (alarms r))"
proof -
  from assms obtain r where r: "evaluate_anesthesia_realistic p = Inr r"
    and a: "alarms r = fst (clinical p)"
    by (rule evaluate_valid_fields)
  have m: "mv_lpm p = Inr (mv_value p)"
    by (rule mv_lpm_value)
  have d: "Possible_disconnection \<in> set (alarms r) \<longleftrightarrow>
             py_lt (airway_pressure_cmh2o p) (Fin 5) \<and>
             py_lt (mv_value p) (if patient_type p = ''adult'' then Fin 4.0 else Fin 1.2)"
    unfolding a by (simp add: clinical_lists alarm_iffs mv_warn_low_eq)
  have l: "Low_minute_ventilation (mv_value p) \<in> set (alarms r) \<longleftrightarrow>
             py_lt (mv_value p) (if patient_type p = ''adult'' then Fin 3.0 else Fin 0.8)"
    unfolding a by (simp add: clinical_lists alarm_iffs mv_alarm_low_eq)
  have c: "mv_value p = Fin 1.2 \<and> Possible_disconnection \<in> set (alarms r) \<and>
           Low_minute_ventilation (Fin 1.2) \<in> set (alarms r)"
    if t: "patient_type p = ''adult''" "airway_pressure_cmh2o p = Fin 3"
      "tidal_volume_ml p = Fin 200" "resp_rate_bpm p = Fin 6"
  proof -
    have v: "mv_value p = Fin 1.2"
      using t by (simp add: mv_value_def)
    have "Possible_disconnection \<in> set (alarms r)"
      unfolding d using t v by simp
    moreover have "Low_minute_ventilation (mv_value p) \<in> set (alarms r)"
      unfolding l using t v by simp
    ultimately show ?thesis using v by simp
  qed
  have "evaluate_anesthesia_realistic p = Inr r \<and> mv_lpm p = Inr (mv_value p) \<and>
           (py_lt (airway_pressure_cmh2o p) (Fin 5) \<and>
            py_lt (mv_value p) (if patient_type p = ''adult'' then Fin 4.0 else Fin 1.2) \<longrightarrow>
              Possible_disconnection \<in> set (alarms r)) \<and>
           (patient_type p = ''adult'' \<and> weight_kg p = Fin 70 \<and>
            airway_pressure_cmh2o p = Fin 3 \<and> tidal_volume_ml p = Fin 200 \<and>
            resp_rate_bpm p = Fin 6 \<longrightarrow>
              mv_value p = Fin 1.2 \<and> Possible_disconnection \<in> set (alarms r) \<and>
              Low_minute_ventilation (Fin 1.2) \<in> set (alarms r))"
    using r m d c by blast
  then show ?thesis by blast
qed

text \<open>
  The compound rule on its concrete input.
\<close>

theorem disconnection_rule_witness:
  "passes_validation compound_input \<and>
   (\<exists>r. evaluate_anesthesia_realistic compound_input = Inr r \<and>
        mv_lpm compound_input = Inr (Fin 1.2) \<and>
        Possible_disconnection \<in> set (alarms r) \<and>
        Low_minute_ventilation (Fin 1.2) \<in> set (alarms r))"
proof -
  have h: "passes_validation compound_input"
    by (simp add: passes_validation_def compound_input_def scenario_a_def py_gt_def)
  have f: "patient_type compound_input = ''adult''" "weight_kg compound_input = Fin 70"
    "airway_pressure_cmh2o compound_input = Fin 3" "tidal_volume_ml compound_input = Fin 200"
    "resp_rate_bpm compound_input = Fin 6"
    by (simp_all add: compound_input_def scenario_a_def)
  from disconnection_rule [OF h] f h show ?thesis by blast
qed

text \<open>
  Claim C5. For every input that passes validation: a concentration above the ceiling
  of the agent (Sevoflurane 4.0, Isoflurane 3.0, Desflurane 10.0, any other agent 5.0)
  adds the alarm and no high-concentration warning; otherwise a concentration above the
  warn-high threshold (3.0, 2.5, 8.0, any other agent 3.0) adds the warning and no
  alarm of this rule. Desflurane at 11 percent gives the alarm with the ceiling 10.0.
\<close>

theorem agent_rule:
  assumes "passes_validation p"
  shows "\<exists>r. evaluate_anesthesia_realistic p = Inr r \<and>
           (py_gt (agent_percent p)
              (if agent p = ''Sevoflurane'' then Fin 4.0 else if agent p = ''Isoflurane'' then Fin 3.0
               else if agent p = ''Desflurane'' then Fin 10.0 else Fin 5.0) \<longrightarrow>
              (\<exists>x. Agent_too_high (agent p) x \<in> set (alarms r)) \<and>
              (\<forall>a x. Agent_high a x \<notin> set (warnings r))) \<and>
           (\<not> py_gt (agent_percent p)
              (if agent p = ''Sevoflurane'' then Fin 4.0 else if agent p = ''Isoflurane'' then Fin 3.0
               else if agent p = ''Desflurane'' then Fin 10.0 else Fin 5.0) \<and>
            py_gt (agent_percent p)
              (if agent p = ''Sevoflurane'' then Fin 3.0 else if agent p = ''Isoflurane'' then Fin 2.5
               else if agent p = ''Desflurane'' then Fin 8.0 else Fin 3.0) \<longrightarrow>
              (\<exists>x. Agent_high (agent p) x \<in> set (warnings r)) \<and>
              (\<forall>a x. Agent_too_high a x \<notin> set (alarms r))) \<and>
           (agent p = ''Desflurane'' \<and> agent_percent p = Fin 11 \<longrightarrow>
              Agent_too_high ''Desflurane'' (Some (Fin 10.0)) \<in> set (alarms r))"
proof -
  define ceil where "ceil = get_default agent_alarm_max (agent p) (Fin 5.0)"
  define high where "high = get_default agent_warn_high (agent p) (Fin 3.0)"
  from assms obtain r where r: "evaluate_anesthesia_realistic p = Inr r"
    and a: "alarms r = fst (clinical p)" and w: "warnings r = snd (clinical p)"
    by (rule evaluate_valid_fields)
  have ta: "\<And>n x. Agent_too_high n x \<in> set (alarms r) \<longleftrightarrow>
              n = agent p \<and> x = agent_alarm_max (agent p) \<and> py_gt (agent_percent p) ceil"
    unfolding a ceil_def by (auto simp: clinical_lists alarm_iffs)
  have tw: "\<And>n x. Agent_high n x \<in> set (warnings r) \<longleftrightarrow>
              n = agent p \<and> x = agent_warn_high (agent p) \<and>
              \<not> py_gt (agent_percent p) ceil \<and> py_gt (agent_percent p) high"
    unfolding w ceil_def high_def by (auto simp: clinical_lists warning_iffs)
  have c1: "py_gt (agent_percent p) ceil \<longrightarrow>
              (\<exists>x. Agent_too_high (agent p) x \<in> set (alarms r)) \<and>
              (\<forall>a x. Agent_high a x \<notin> set (warnings r))"
    by (simp add: ta tw)
  have c2: "\<not> py_gt (agent_percent p) ceil \<and> py_gt (agent_percent p) high \<longrightarrow>
              (\<exists>x. Agent_high (agent p) x \<in> set (warnings r)) \<and>
              (\<forall>a x. Agent_too_high a x \<notin> set (alarms r))"
    by (simp add: ta tw)
  have c3: "agent p = ''Desflurane'' \<and> agent_percent p = Fin 11 \<longrightarrow>
              Agent_too_high ''Desflurane'' (Some (Fin 10.0)) \<in> set (alarms r)"
    by (simp add: ta ceil_def get_default_def agent_alarm_max_def py_gt_def)
  note e = alarm_max_eq [of "agent p"] warn_high_eq [of "agent p"]
  from r c1 [unfolded ceil_def e] c2 [unfolded ceil_def high_def e] c3
  show ?thesis by blast
qed

text \<open>
  Scenario C: Desflurane at 11 percent.
\<close>

theorem agent_rule_witness:
  "passes_validation scenario_c \<and>
   (\<exists>r. evaluate_anesthesia_realistic scenario_c = Inr r \<and>
        Agent_too_high ''Desflurane'' (Some (Fin 10.0)) \<in> set (alarms r) \<and>
        (\<forall>a x. Agent_high a x \<notin> set (warnings r)))"
proof -
  have h: "passes_validation scenario_c"
    by (simp add: passes_validation_def scenario_c_def scenario_a_def py_gt_def)
  have f: "agent scenario_c = ''Desflurane''" "agent_percent scenario_c = Fin 11"
    by (simp_all add: scenario_c_def scenario_a_def)
  have g: "py_gt (agent_percent scenario_c)
      (if agent scenario_c = ''Sevoflurane'' then Fin 4.0
       else if agent scenario_c = ''Isoflurane'' then Fin 3.0
       else if agent scenario_c = ''Desflurane'' then Fin 10.0 else Fin 5.0)"
    by (simp add: f py_gt_def)
  from agent_rule [OF h] f g h show ?thesis by blast
qed

text \<open>
  Claim C6. Scenario A (adult, 70 kg, FiO2 50, fresh gas flow 4, Sevoflurane at 2
  percent, pressure 18, tidal volume 500, respiratory rate 12, guard enabled) returns
  status \<^verbatim>\<open>RUNNING\<close> with no alarm and no warning, a minute ventilation of 6.0, a
  tidal volume per kg of 7.14 and the target range \<^verbatim>\<open>6.0-8.0\<close>.
\<close>

theorem scenario_a_result:
  "evaluate_anesthesia_realistic
     \<lparr>patient_type = ''adult'', weight_kg = Fin 70, fio2 = Fin 50, fresh_gas_flow_lpm = Fin 4,
      agent = ''Sevoflurane'', agent_percent = Fin 2, airway_pressure_cmh2o = Fin 18,
      tidal_volume_ml = Fin 500, resp_rate_bpm = Fin 12, hypoxic_guard_enabled = True\<rparr> =
   Inr \<lparr>status = ''RUNNING'', alarms = [], warnings = [],
        computed = [''MV_Lmin'' \<mapsto> PyFloat (Fin 6.0), ''VT_mLkg'' \<mapsto> PyFloat (Fin 7.14),
                    ''VT_target_mLkg'' \<mapsto> PyStr ''6.0-8.0'']\<rparr>"
  by (simp add: evaluate_anesthesia_realistic_def validate_inputs_def oxygen_safety_def
      fresh_gas_flow_def agent_limits_def agent_alarm_max_def agent_warn_high_def get_default_def
      mv_lpm_def vt_ml_per_kg_def py_truediv_def py_gt_def ventilation_def ranges_def vt_rules_def
      rr_safety_def mv_adequacy_def airway_pressure_def append_alarm_def append_warning_def
      round_half_even_def digits.simps Let_def)

text \<open>
  Claim C7. For every input that passes validation: a respiratory rate below 6 adds the
  apnea alarm and neither warning; from 6 to below 8 only the low-rate warning; from 8
  to 35 nothing; above 35 only the high-rate warning. In particular 5 gives the alarm,
  7 the warning and 8 nothing.
\<close>

theorem rr_rule:
  assumes "passes_validation p"
  shows "\<exists>r. evaluate_anesthesia_realistic p = Inr r \<and>
           (py_lt (resp_rate_bpm p) (Fin 6) \<longrightarrow>
              Apnea \<in> set (alarms r) \<and> Low_RR \<notin> set (warnings r) \<and> High_RR \<notin> set (warnings r)) \<and>
           (py_le (Fin 6) (resp_rate_bpm p) \<and> py_lt (resp_rate_bpm p) (Fin 8) \<longrightarrow>
              Apnea \<notin> set (alarms r) \<and> Low_RR \<in> set (warnings r) \<and> High_RR \<notin> set (warnings r)) \<and>
           (py_le (Fin 8) (resp_rate_bpm p) \<and> py_le (resp_rate_bpm p) (Fin 35) \<longrightarrow>
              Apnea \<notin> set (alarms r) \<and> Low_RR \<notin> set (warnings r) \<and> High_RR \<notin> set (warnings r)) \<and>
           (py_gt (resp_rate_bpm p) (Fin 35) \<longrightarrow>
              Apnea \<notin> set (alarms r) \<and> Low_RR \<notin> set (warnings r) \<and> High_RR \<in> set (warnings r)) \<and>
           (resp_rate_bpm p = Fin 5 \<longrightarrow> Apnea \<in> set (alarms r) \<and> Low_RR \<notin> set (warnings r)) \<and>
           (resp_rate_bpm p = Fin 7 \<longrightarrow> Apnea \<notin> set (alarms r) \<and> Low_RR \<in> set (warnings r)) \<and>
           (resp_rate_bpm p = Fin 8 \<longrightarrow> Apnea \<notin> set (alarms r) \<and> Low_RR \<notin> set (warnings r))"
proof -
  from assms obtain r where r: "evaluate_anesthesia_realistic p = Inr r"
    and a: "alarms r = fst (clinical p)" and w: "warnings r = snd (clinical p)"
    by (rule evaluate_valid_fields)
  have 1: "Apnea \<in> set (alarms r) \<longleftrightarrow> py_lt (resp_rate_bpm p) (Fin 6)"
    unfolding a by (simp add: clinical_lists alarm_iffs)
  have 2: "Low_RR \<in> set (warnings r) \<longleftrightarrow>
             \<not> py_lt (resp_rate_bpm p) (Fin 6) \<and> py_lt (resp_rate_bpm p) (Fin 8)"
    unfolding w by (simp add: clinical_lists warning_iffs)
  have 3: "High_RR \<in> set (warnings r) \<longleftrightarrow>
             \<not> py_lt (resp_rate_bpm p) (Fin 6) \<and> \<not> py_lt (resp_rate_bpm p) (Fin 8) \<and>
             py_gt (resp_rate_bpm p) (Fin 35)"
    unfolding w by (simp add: clinical_lists warning_iffs)
  have c1: "py_lt (resp_rate_bpm p) (Fin 6) \<longrightarrow>
              Apnea \<in> set (alarms r) \<and> Low_RR \<notin> set (warnings r) \<and> High_RR \<notin> set (warnings r)"
    unfolding 1 2 3 by simp
  have c2: "py_le (Fin 6) (resp_rate_bpm p) \<and> py_lt (resp_rate_bpm p) (Fin 8) \<longrightarrow>
              Apnea \<notin> set (alarms r) \<and> Low_RR \<in> set (warnings r) \<and> High_RR \<notin> set (warnings r)"
    unfolding 1 2 3 by (cases "resp_rate_bpm p") simp_all
  have c3: "py_le (Fin 8) (resp_rate_bpm p) \<and> py_le (resp_rate_bpm p) (Fin 35) \<longrightarrow>
              Apnea \<notin> set (alarms r) \<and> Low_RR \<notin> set (warnings r) \<and> High_RR \<notin> set (warnings r)"
    unfolding 1 2 3 by (cases "resp_rate_bpm p") (simp_all add: py_gt_def)
  have c4: "py_gt (resp_rate_bpm p) (Fin 35) \<longrightarrow>
              Apnea \<notin> set (alarms r) \<and> Low_RR \<notin> set (warnings r) \<and> High_RR \<in> set (warnings r)"
    unfolding 1 2 3 by (cases "resp_rate_bpm p") (simp_all add: py_gt_def)
  have c5: "resp_rate_bpm p = Fin 5 \<longrightarrow> Apnea \<in> set (alarms r) \<and> Low_RR \<notin> set (warnings r)"
    unfolding 1 2 3 by simp
  have c6: "resp_rate_bpm p = Fin 7 \<longrightarrow> Apnea \<notin> set (alarms r) \<and> Low_RR \<in> set (warnings r)"
    unfolding 1 2 3 by simp
  have c7: "resp_rate_bpm p = Fin 8 \<longrightarrow> Apnea \<notin> set (alarms r) \<and> Low_RR \<notin> set (warnings r)"
    unfolding 1 2 3 by simp
  from r c1 c2 c3 c4 c5 c6 c7 show ?thesis by blast
qed

text \<open>
  The rule at the rates 5, 7, 8 and 40, all other settings as in scenario A.
\<close>

theorem rr_rule_witness:
  "(passes_validation (rr_input 5) \<and>
    (\<exists>r. evaluate_anesthesia_realistic (rr_input 5) = Inr r \<and>
         Apnea \<in> set (alarms r) \<and> Low_RR \<notin> set (warnings r) \<and> High_RR \<notin> set (warnings r))) \<and>
   (passes_validation (rr_input 7) \<and>
    (\<exists>r. evaluate_anesthesia_realistic (rr_input 7) = Inr r \<and>
         Apnea \<notin> set (alarms r) \<and> Low_RR \<in> set (warnings r) \<and> High_RR \<notin> set (warnings r))) \<and>
   (passes_validation (rr_input 8) \<and>
    (\<exists>r. evaluate_anesthesia_realistic (rr_input 8) = Inr r \<and>
         Apnea \<notin> set (alarms r) \<and> Low_RR \<notin> set (warnings r) \<and> High_RR \<notin> set (warnings r))) \<and>
   (passes_validation (rr_input 40) \<and>
    (\<exists>r. evaluate_anesthesia_realistic (rr_input 40) = Inr r \<and>
         Apnea \<notin> set (alarms r) \<and> Low_RR \<notin> set (warnings r) \<and> High_RR \<in> set (warnings r)))"
proof -
  have h: "passes_validation (rr_input 5)" "passes_validation (rr_input 7)"
    "passes_validation (rr_input 8)" "passes_validation (rr_input 40)"
    by (simp_all add: passes_validation_def rr_input_def scenario_a_def py_gt_def)
  have f5: "py_lt (resp_rate_bpm (rr_input 5)) (Fin 6)"
    by (simp add: rr_input_def)
  have f7: "py_le (Fin 6) (resp_rate_bpm (rr_input 7)) \<and> py_lt (resp_rate_bpm (rr_input 7)) (Fin 8)"
    by (simp add: rr_input_def)
  have f8: "py_le (Fin 8) (resp_rate_bpm (rr_input 8)) \<and> py_le (resp_rate_bpm (rr_input 8)) (Fin 35)"
    by (simp add: rr_input_def)
  have f40: "py_gt (resp_rate_bpm (rr_input 40)) (Fin 35)"
    by (simp add: rr_input_def py_gt_def)
  have a: "\<exists>r. evaluate_anesthesia_realistic (rr_input 5) = Inr r \<and>
         Apnea \<in> set (alarms r) \<and> Low_RR \<notin> set (warnings r) \<and> High_RR \<notin> set (warnings r)"
    using rr_rule [OF h(1)] f5 by blast
  have b: "\<exists>r. evaluate_anesthesia_realistic (rr_input 7) = Inr r \<and>
         Apnea \<notin> set (alarms r) \<and> Low_RR \<in> set (warnings r) \<and> High_RR \<notin> set (warnings r)"
    using rr_rule [OF h(2)] f7 by blast
  have c: "\<exists>r. evaluate_anesthesia_realistic (rr_input 8) = Inr r \<and>
         Apnea \<notin> set (alarms r) \<and> Low_RR \<notin> set (warnings r) \<and> High_RR \<notin> set (warnings r)"
    using rr_rule [OF h(3)] f8 by blast
  have d: "\<exists>r. evaluate_anesthesia_realistic (rr_input 40) = Inr r \<and>
         Apnea \<notin> set (alarms r) \<and> Low_RR \<notin> set (warnings r) \<and> High_RR \<in> set (warnings r)"
    using rr_rule [OF h(4)] f40 by blast
  from h a b c d show ?thesis by blast
qed

text \<open>
  Claim C8. For every input that passes validation with a fresh gas flow above 0 and at
  most 0.3 and an agent concentration above 0, the alarm for a very low flow with agent
  and the warning for a flow below 0.5 are both present, and the status is
  \<^verbatim>\<open>ALARM\<close>.
\<close>

theorem fgf_overlap:
  assumes "passes_validation p"
    and "py_lt (Fin 0) (fresh_gas_flow_lpm p)"
    and "py_le (fresh_gas_flow_lpm p) (Fin 0.3)"
    and "py_gt (agent_percent p) (Fin 0)"
  shows "\<exists>r. evaluate_anesthesia_realistic p = Inr r \<and>
           FGF_very_low_with_agent \<in> set (alarms r) \<and> Very_low_FGF \<in> set (warnings r) \<and>
           status r = ''ALARM''"
proof -
  from assms(1) obtain r where r: "evaluate_anesthesia_realistic p = Inr r"
    and a: "alarms r = fst (clinical p)" and w: "warnings r = snd (clinical p)"
    and s: "status r = (if fst (clinical p) \<noteq> [] then ''ALARM''
                        else if snd (clinical p) \<noteq> [] then ''WARNING'' else ''RUNNING'')"
    by (rule evaluate_valid_fields)
  have n0: "\<not> py_eq (fresh_gas_flow_lpm p) (Fin 0)"
    using assms(2) by (rule py_lt_not_eq)
  have l5: "py_lt (fresh_gas_flow_lpm p) (Fin 0.5)"
    using assms(3) by (cases "fresh_gas_flow_lpm p") simp_all
  have 1: "FGF_very_low_with_agent \<in> set (alarms r)"
    unfolding a using n0 assms(3,4) by (simp add: clinical_lists alarm_iffs)
  have 2: "Very_low_FGF \<in> set (warnings r)"
    unfolding w using l5 by (simp add: clinical_lists warning_iffs)
  from 1 have "fst (clinical p) \<noteq> []"
    unfolding a by auto
  then have 3: "status r = ''ALARM''"
    unfolding s by simp
  from r 1 2 3 show ?thesis by blast
qed

text \<open>
  A fresh gas flow of 0.2 with Sevoflurane at 2 percent.
\<close>

theorem fgf_overlap_witness:
  "passes_validation low_fgf_input \<and>
   py_lt (Fin 0) (fresh_gas_flow_lpm low_fgf_input) \<and>
   py_le (fresh_gas_flow_lpm low_fgf_input) (Fin 0.3) \<and>
   py_gt (agent_percent low_fgf_input) (Fin 0) \<and>
   (\<exists>r. evaluate_anesthesia_realistic low_fgf_input = Inr r \<and>
        FGF_very_low_with_agent \<in> set (alarms r) \<and> Very_low_FGF \<in> set (warnings r) \<and>
        status r = ''ALARM'')"
proof -
  have h: "passes_validation low_fgf_input"
    by (simp add: passes_validation_def low_fgf_input_def scenario_a_def py_gt_def)
  have f: "py_lt (Fin 0) (fresh_gas_flow_lpm low_fgf_input)"
    "py_le (fresh_gas_flow_lpm low_fgf_input) (Fin 0.3)"
    "py_gt (agent_percent low_fgf_input) (Fin 0)"
    by (simp_all add: low_fgf_input_def scenario_a_def py_gt_def)
  from fgf_overlap [OF h f] h f show ?thesis by blast
qed

text \<open>
  Claim C9. When validation fails, the alarms are in the order of the checks: weight,
  FiO2, fresh gas flow, agent concentration, respiratory rate, tidal volume. The list
  of alarms is the list of the six messages in that order, restricted to the messages
  that are present.
\<close>

theorem validation_order:
  assumes "\<not> passes_validation p"
  shows "\<exists>r. evaluate_anesthesia_realistic p = Inr r \<and> alarms r \<noteq> [] \<and>
           alarms r =
             filter (\<lambda>m. m \<in> set (alarms r))
               [Invalid_weight, Invalid_fio2, Invalid_fresh_gas_flow,
                Invalid_agent_concentration, Invalid_respiratory_rate, Invalid_tidal_volume]"
proof -
  let ?r = "\<lparr>status = ''ALARM'', alarms = fst (validate_inputs p ([], [])), warnings = [],
             computed = Map.empty\<rparr>"
  have a: "alarms ?r = fst (validate_inputs p ([], []))"
    by simp
  have ne: "fst (validate_inputs p ([], [])) \<noteq> []"
    using assms by (simp add: passes_validation_iff)
  have f: "fst (validate_inputs p ([], [])) =
          filter (\<lambda>m. m \<in> set (fst (validate_inputs p ([], []))))
            [Invalid_weight, Invalid_fio2, Invalid_fresh_gas_flow,
             Invalid_agent_concentration, Invalid_respiratory_rate, Invalid_tidal_volume]"
    unfolding validate_inputs_alarms by simp
  have "evaluate_anesthesia_realistic p = Inr ?r \<and> alarms ?r \<noteq> [] \<and>
        alarms ?r =
          filter (\<lambda>m. m \<in> set (alarms ?r))
            [Invalid_weight, Invalid_fio2, Invalid_fresh_gas_flow,
             Invalid_agent_concentration, Invalid_respiratory_rate, Invalid_tidal_volume]"
    unfolding a using evaluate_invalid [OF assms] ne f by blast
  then show ?thesis by (rule exI)
qed

text \<open>
  Three violated checks, reported in the order weight, FiO2, tidal volume.
\<close>

theorem validation_order_witness:
  "\<not> passes_validation invalid_input \<and>
   (\<exists>r. evaluate_anesthesia_realistic invalid_input = Inr r \<and>
        alarms r = [Invalid_weight, Invalid_fio2, Invalid_tidal_volume])"
proof -
  have h: "\<not> passes_validation invalid_input"
    by (simp add: passes_validation_def invalid_input_def scenario_a_def)
  have e: "fst (validate_inputs invalid_input ([], [])) =
             [Invalid_weight, Invalid_fio2, Invalid_tidal_volume]"
    by (simp add: validate_inputs_alarms invalid_input_def scenario_a_def py_gt_def)
  from validation_order [OF h] obtain r where
    r: "evaluate_anesthesia_realistic invalid_input = Inr r"
    by blast
  with evaluate_invalid [OF h] have "alarms r = fst (validate_inputs invalid_input ([], []))"
    by auto
  with h r e show ?thesis by simp
qed

text \<open>
  Claim C10, as stated, says that past the validation gate the weight is always above 0,
  so that the fallback of line 79 is never taken. A weight that is not a number passes
  the gate (\<^verbatim>\<open>nan <= 0\<close> is false) and fails \<^verbatim>\<open>weight_kg > 0\<close>: the evaluation
  goes on, takes the fallback, and reports a tidal volume per kg of 0.
\<close>

theorem fallback_reached:
  "passes_validation nan_weight_input \<and>
   \<not> py_gt (weight_kg nan_weight_input) (Fin 0) \<and>
   vt_ml_per_kg nan_weight_input = Inr (Fin 0) \<and>
   evaluate_anesthesia_realistic nan_weight_input =
     Inr \<lparr>status = ''ALARM'', alarms = [VT_too_low (Fin 0)], warnings = [],
          computed = [''MV_Lmin'' \<mapsto> PyFloat (Fin 6.0), ''VT_mLkg'' \<mapsto> PyFloat (Fin 0),
                      ''VT_target_mLkg'' \<mapsto> PyStr ''6.0-8.0'']\<rparr>"
  by (simp add: passes_validation_def nan_weight_input_def scenario_a_def
      evaluate_anesthesia_realistic_def validate_inputs_def oxygen_safety_def
      fresh_gas_flow_def agent_limits_def agent_alarm_max_def agent_warn_high_def get_default_def
      mv_lpm_def vt_ml_per_kg_def py_truediv_def py_gt_def ventilation_def ranges_def vt_rules_def
      rr_safety_def mv_adequacy_def airway_pressure_def append_alarm_def append_warning_def
      round_half_even_def digits.simps Let_def)

text \<open>
  Claim C10, amended. The evaluator never divides by zero: for every input it returns a
  result, and the division of line 79 never raises. For every input that passes
  validation with a weight that is a number, the weight is above 0 and the tidal volume
  per kg is the quotient, not the fallback.
\<close>

theorem division_safe:
  "(\<exists>r. evaluate_anesthesia_realistic p = Inr r) \<and>
   vt_ml_per_kg p \<noteq> Inl ZeroDivisionError \<and>
   (passes_validation p \<and> weight_kg p \<noteq> NaN \<longrightarrow>
      py_gt (weight_kg p) (Fin 0) \<and>
      vt_ml_per_kg p = Inr (quotient (tidal_volume_ml p) (weight_kg p)))"
proof -
  have 1: "\<exists>r. evaluate_anesthesia_realistic p = Inr r"
    by (rule evaluate_total)
  have 2: "vt_ml_per_kg p \<noteq> Inl ZeroDivisionError"
    by (simp add: vt_ml_per_kg_value)
  have 3: "py_gt (weight_kg p) (Fin 0) \<and>
           vt_ml_per_kg p = Inr (quotient (tidal_volume_ml p) (weight_kg p))"
    if "passes_validation p" "weight_kg p \<noteq> NaN"
  proof -
    have g: "py_gt (weight_kg p) (Fin 0)"
      using that by (rule validated_weight_positive)
    then show ?thesis
      by (simp add: vt_ml_per_kg_value vt_value_def)
  qed
  from 1 2 3 show ?thesis by blast
qed

text \<open>
  Scenario A: the weight 70 is above 0 and the division is the one performed.
\<close>

theorem division_safe_witness:
  "passes_validation scenario_a \<and> weight_kg scenario_a \<noteq> NaN \<and>
   py_gt (weight_kg scenario_a) (Fin 0) \<and>
   vt_ml_per_kg scenario_a = Inr (Fin (500 / 70))"
proof -
  have h: "passes_validation scenario_a" "weight_kg scenario_a \<noteq> NaN"
    by (simp_all add: passes_validation_def scenario_a_def py_gt_def)
  have q: "quotient (tidal_volume_ml scenario_a) (weight_kg scenario_a) = Fin (500 / 70)"
    by (simp add: scenario_a_def)
  from division_safe [of scenario_a] h
  have "py_gt (weight_kg scenario_a) (Fin 0) \<and>
        vt_ml_per_kg scenario_a =
          Inr (quotient (tidal_volume_ml scenario_a) (weight_kg scenario_a))"
    by blast
  with h show ?thesis unfolding q by blast
qed

end
